theory Spec2Isabelle
  imports Complex_Main
begin

section \<open>Python values, exceptions and strings\<close>

text \<open>
  The feature extractors of \<^verbatim>\<open>script.py\<close> return heterogeneous Python values: counters
  are ints, the link density is an int or a float, certificate fields are strings, and the
  failure marker is the string \<^verbatim>\<open>'Error'\<close>.  The float produced by the true division
  \<^verbatim>\<open>link_count / word_count\<close> is carried as the exact quotient; the rounding to the
  nearest double is not modelled (it is monotone and maps 0 to 0).
\<close>

datatype pyval =
    PNone
  | PInt int
  | PFloat rat
  | PStr string
  | PList "pyval list"

text \<open>
  The exceptions that the modelled code can meet.  \<open>Timeout\<close> is
  \<^verbatim>\<open>requests.exceptions.Timeout\<close>; \<open>RequestException\<close> stands for every other
  subclass of \<^verbatim>\<open>requests.exceptions.RequestException\<close>, with its cause.
  \<open>ParserRejectedMarkup\<close> is the exception of the HTML parser library.  The others are
  Python built-ins.  Only the first two are request-level errors.
\<close>

datatype exn =
    Timeout
  | RequestException string
  | ValueError
  | KeyError
  | IndexError
  | TypeError
  | ZeroDivisionError
  | OSError
  | UnboundLocalError
  | ParserRejectedMarkup

text \<open>\<^verbatim>\<open>try: body  except Exception: return marker\<close>\<close>

definition try_except :: "exn + 'a \<Rightarrow> 'a \<Rightarrow> 'a" where
  "try_except body marker = (case body of Inl e \<Rightarrow> marker | Inr v \<Rightarrow> v)"

definition Error :: pyval where
  "Error = PStr ''Error''"

text \<open>Sequencing of statements that may raise, subscripting and dictionary lookup.\<close>

definition and_then :: "exn + 'a \<Rightarrow> ('a \<Rightarrow> exn + 'b) \<Rightarrow> exn + 'b" where
  "and_then m f = (case m of Inl e \<Rightarrow> Inl e | Inr v \<Rightarrow> f v)"

definition subscript :: "'a list \<Rightarrow> nat \<Rightarrow> exn + 'a" where
  "subscript xs i = (if i < length xs then Inr (xs ! i) else Inl IndexError)"

definition lookup :: "'a option \<Rightarrow> exn + 'a" where
  "lookup field = (case field of None \<Rightarrow> Inl KeyError | Some v \<Rightarrow> Inr v)"

text \<open>
  \<^verbatim>\<open>a / b\<close> on two ints: true division, which raises \<^verbatim>\<open>ZeroDivisionError\<close> when
  the divisor is 0.
\<close>

definition truediv :: "nat \<Rightarrow> nat \<Rightarrow> exn + pyval" where
  "truediv a b = (if b = 0 then Inl ZeroDivisionError else Inr (PFloat (of_nat a / of_nat b)))"

text \<open>\<^verbatim>\<open>s.startswith(p)\<close>\<close>

fun startswith :: "string \<Rightarrow> string \<Rightarrow> bool" where
  "startswith s [] = True"
| "startswith [] (p # ps) = False"
| "startswith (c # cs) (p # ps) = (c = p \<and> startswith cs ps)"

text \<open>\<^verbatim>\<open>sub in s\<close> on strings: \<open>sub\<close> occurs in \<open>s\<close> as a contiguous substring.\<close>

fun str_in :: "string \<Rightarrow> string \<Rightarrow> bool" where
  "str_in sub [] = (sub = [])"
| "str_in sub (c # cs) = (startswith (c # cs) sub \<or> str_in sub cs)"

text \<open>
  \<^verbatim>\<open>str.isspace\<close> on the characters of code point below 256, and \<^verbatim>\<open>s.split()\<close>:
  the maximal runs of non-whitespace characters, in order.
\<close>

definition isspace :: "char \<Rightarrow> bool" where
  "isspace c = (of_char c \<in> {9, 10, 11, 12, 13, 28, 29, 30, 31, 32, 133, 160 :: nat})"

fun split_acc :: "string \<Rightarrow> string \<Rightarrow> string list" where
  "split_acc cur [] = (if cur = [] then [] else [cur])"
| "split_acc cur (c # cs) =
     (if isspace c then (if cur = [] then split_acc [] cs else cur # split_acc [] cs)
      else split_acc (cur @ [c]) cs)"

definition split :: "string \<Rightarrow> string list" where
  "split s = split_acc [] s"

text \<open>\<^verbatim>\<open>sep.join(parts)\<close>\<close>

fun join :: "string \<Rightarrow> string list \<Rightarrow> string" where
  "join sep [] = []"
| "join sep [p] = p"
| "join sep (p # q # ps) = p @ sep @ join sep (q # ps)"

text \<open>
  \<^verbatim>\<open>str.isdigit\<close> on the characters of code point below 256 (the superscripts
  two, three and one are digits for Python), and on a whole string: non-empty and
  all digits.
\<close>

definition isdigit_char :: "char \<Rightarrow> bool" where
  "isdigit_char c = (let n = of_char c :: nat in (48 \<le> n \<and> n \<le> 57) \<or> n = 178 \<or> n = 179 \<or> n = 185)"

definition isdigit :: "string \<Rightarrow> bool" where
  "isdigit s = (s \<noteq> [] \<and> list_all isdigit_char s)"

section \<open>The parsed document\<close>

text \<open>
  The result of \<^verbatim>\<open>BeautifulSoup(page.content, 'html.parser')\<close>: a tree of tags with
  their attribute dictionaries (an association list read with \<open>map_of\<close>), text nodes and
  comments.  \<open>find_all\<close> lists the tags of a given name in document order, and
  \<open>get_text\<close> joins the text nodes (comments are not text) with the separator.
\<close>

datatype node =
    NavigableString string
  | Comment string
  | Tag string "(string \<times> string) list" "node list"

type_synonym soup = "node list"

fun descendants_named :: "string \<Rightarrow> node \<Rightarrow> node list" where
  "descendants_named nm (Tag n as cs) =
     (if n = nm then [Tag n as cs] else []) @ concat (map (descendants_named nm) cs)"
| "descendants_named nm (NavigableString s) = []"
| "descendants_named nm (Comment s) = []"

definition find_all :: "soup \<Rightarrow> string \<Rightarrow> node list" where
  "find_all soup nm = concat (map (descendants_named nm) soup)"

text \<open>\<^verbatim>\<open>tag.get(key)\<close>, \<open>None\<close> when the attribute is absent.\<close>

fun tag_get :: "node \<Rightarrow> string \<Rightarrow> string option" where
  "tag_get (Tag n as cs) k = map_of as k"
| "tag_get (NavigableString s) k = None"
| "tag_get (Comment s) k = None"

fun all_strings :: "node \<Rightarrow> string list" where
  "all_strings (NavigableString s) = [s]"
| "all_strings (Comment s) = []"
| "all_strings (Tag n as cs) = concat (map all_strings cs)"

definition get_text :: "soup \<Rightarrow> string \<Rightarrow> string" where
  "get_text soup separator = join separator (concat (map all_strings soup))"

section \<open>Page analyzers\<close>

subsection \<open>Link density\<close>

text \<open>
  \<^verbatim>\<open>extract_link_density(soup)\<close>, lines 14 to 34.  The conditional expression of
  line 29 evaluates the division only when the word count is positive.
\<close>

definition extract_link_density_body :: "soup \<Rightarrow> exn + pyval" where
  "extract_link_density_body soup =
     (let link_count = length (find_all soup ''a'');
          text = get_text soup '' '';
          word_count = length (split text)
      in and_then (if word_count > 0 then truediv link_count word_count else Inr (PInt 0))
           (\<lambda>link_density. Inr link_density))"

definition extract_link_density :: "soup \<Rightarrow> pyval" where
  "extract_link_density soup = try_except (extract_link_density_body soup) Error"

subsection \<open>Link classification\<close>

text \<open>
  What the code reads from \<^verbatim>\<open>urllib.parse.urlparse(link)\<close>: the scheme, the network
  location and the \<^verbatim>\<open>hostname\<close> property (\<open>None\<close> when absent).  The parser is
  a library function: the analyzers take it as the parameter \<open>urlparse\<close>, which
  returns \<open>Inl ValueError\<close> where the library raises.
\<close>

record parse_result =
  scheme :: string
  netloc :: string
  hostname :: "string option"

type_synonym url_parser = "string \<Rightarrow> exn + parse_result"

type_synonym link_counts = "nat \<times> nat \<times> nat \<times> nat \<times> nat \<times> nat"

text \<open>
  One pass of the loop body of lines 61 to 82 on an already parsed link.  The counters
  are, in order: external, internal, IP-based, https, http, non.
\<close>

fun link_step :: "string \<Rightarrow> parse_result \<Rightarrow> link_counts \<Rightarrow> link_counts" where
  "link_step domain parsed_url
     (external_count, internal_count, ip_based_count, https_count, http_count, non_count) =
     (let external_count =
            (if netloc parsed_url \<noteq> [] \<and> \<not> str_in domain (netloc parsed_url)
             then external_count + 1 else external_count);
          internal_count =
            (if netloc parsed_url \<noteq> [] \<and> str_in domain (netloc parsed_url)
             then internal_count + 1 else internal_count);
          ip_based_count =
            (if (case hostname parsed_url of
                   None \<Rightarrow> False
                 | Some h \<Rightarrow> h \<noteq> [] \<and> isdigit (filter (\<lambda>c. c \<noteq> CHR ''.'') h))
             then ip_based_count + 1 else ip_based_count)
      in if scheme parsed_url = ''https''
         then (external_count, internal_count, ip_based_count,
               https_count + 1, http_count, non_count)
         else if scheme parsed_url = ''http''
         then (external_count, internal_count, ip_based_count,
               https_count, http_count + 1, non_count)
         else (external_count, internal_count, ip_based_count,
               https_count, http_count, non_count + 1))"

text \<open>The \<^verbatim>\<open>for link in links\<close> loop; a link that the parser rejects ends it.\<close>

fun link_loop :: "url_parser \<Rightarrow> string \<Rightarrow> string list \<Rightarrow> link_counts \<Rightarrow> exn + link_counts" where
  "link_loop urlparse domain [] counts = Inr counts"
| "link_loop urlparse domain (link # links) counts =
     (case urlparse link of
        Inl e \<Rightarrow> Inl e
      | Inr parsed_url \<Rightarrow> link_loop urlparse domain links (link_step domain parsed_url counts))"

text \<open>\<^verbatim>\<open>[a['href'] for a in soup.find_all('a', href=True)]\<close>\<close>

definition hrefs :: "soup \<Rightarrow> string list" where
  "hrefs soup = List.map_filter (\<lambda>a. tag_get a ''href'') (find_all soup ''a'')"

definition extract_link_features_body :: "url_parser \<Rightarrow> soup \<Rightarrow> string \<Rightarrow> exn + link_counts" where
  "extract_link_features_body urlparse soup domain =
     (let links = hrefs soup in link_loop urlparse domain links (0, 0, 0, 0, 0, 0))"

definition extract_link_features ::
  "url_parser \<Rightarrow> soup \<Rightarrow> string \<Rightarrow> pyval \<times> pyval \<times> pyval \<times> pyval \<times> pyval \<times> pyval" where
  "extract_link_features urlparse soup domain =
     try_except
       (case extract_link_features_body urlparse soup domain of
          Inl e \<Rightarrow> Inl e
        | Inr (external_count, internal_count, ip_based_count, https_count, http_count, non_count) \<Rightarrow>
            Inr (PInt (int external_count), PInt (int internal_count), PInt (int ip_based_count),
                 PInt (int https_count), PInt (int http_count), PInt (int non_count)))
       (Error, Error, Error, Error, Error, Error)"

subsection \<open>Iframe analysis\<close>

text \<open>
  The loop body of lines 126 to 135: \<^verbatim>\<open>iframe.get('src', '')\<close> is parsed first; the
  placeholder is searched in \<open>src\<close> itself, and the width and height attributes are
  compared with the string \<^verbatim>\<open>'0'\<close>.
\<close>

definition iframe_src :: "node \<Rightarrow> string" where
  "iframe_src iframe = (case tag_get iframe ''src'' of None \<Rightarrow> [] | Some s \<Rightarrow> s)"

fun iframe_step :: "url_parser \<Rightarrow> node \<Rightarrow> nat \<times> nat \<Rightarrow> exn + nat \<times> nat" where
  "iframe_step urlparse iframe (external_iframes_count, hidden_iframes_count) =
     (let src = iframe_src iframe
      in (case urlparse src of
            Inl e \<Rightarrow> Inl e
          | Inr parsed \<Rightarrow>
              Inr (if netloc parsed \<noteq> [] \<and> \<not> str_in ''your-website-domain.com'' src
                   then external_iframes_count + 1 else external_iframes_count,
                   if tag_get iframe ''width'' = Some ''0'' \<or> tag_get iframe ''height'' = Some ''0''
                   then hidden_iframes_count + 1 else hidden_iframes_count)))"

fun iframe_loop :: "url_parser \<Rightarrow> node list \<Rightarrow> nat \<times> nat \<Rightarrow> exn + nat \<times> nat" where
  "iframe_loop urlparse [] counts = Inr counts"
| "iframe_loop urlparse (iframe # iframes) counts =
     (case iframe_step urlparse iframe counts of
        Inl e \<Rightarrow> Inl e
      | Inr counts' \<Rightarrow> iframe_loop urlparse iframes counts')"

definition extract_iframes_body :: "url_parser \<Rightarrow> soup \<Rightarrow> exn + nat \<times> nat" where
  "extract_iframes_body urlparse soup = iframe_loop urlparse (find_all soup ''iframe'') (0, 0)"

definition extract_iframes :: "url_parser \<Rightarrow> soup \<Rightarrow> pyval \<times> pyval" where
  "extract_iframes urlparse soup =
     try_except
       (case extract_iframes_body urlparse soup of
          Inl e \<Rightarrow> Inl e
        | Inr (external_iframes_count, hidden_iframes_count) \<Rightarrow>
            Inr (PInt (int external_iframes_count), PInt (int hidden_iframes_count)))
       (Error, Error)"

text \<open>
  The two conditions as the specification words them: an iframe is external when its
  \<open>src\<close> has a network location and does not hold the self-domain placeholder; it is
  hidden when its declared width or height is the string \<^verbatim>\<open>0\<close>.
\<close>

definition spec_external_iframe :: "url_parser \<Rightarrow> node \<Rightarrow> bool" where
  "spec_external_iframe urlparse iframe =
     (case urlparse (iframe_src iframe) of
        Inl e \<Rightarrow> False
      | Inr parsed \<Rightarrow>
          netloc parsed \<noteq> [] \<and> \<not> str_in ''your-website-domain.com'' (iframe_src iframe))"

definition spec_hidden_iframe :: "node \<Rightarrow> bool" where
  "spec_hidden_iframe iframe =
     (tag_get iframe ''width'' = Some ''0'' \<or> tag_get iframe ''height'' = Some ''0'')"

subsection \<open>HTTPS flag\<close>

text \<open>
  \<^verbatim>\<open>extract_if_https(url)\<close>, lines 176 to 195:
  \<^verbatim>\<open>url.startswith(('https', 'http'))\<close> holds when either prefix matches.
  \<^verbatim>\<open>startswith\<close> does not raise on a string.
\<close>

definition extract_if_https_body :: "string \<Rightarrow> exn + pyval" where
  "extract_if_https_body url =
     (let response = (if startswith url ''https'' \<or> startswith url ''http'' then 1 else 0)
      in Inr (PInt response))"

definition extract_if_https :: "string \<Rightarrow> pyval" where
  "extract_if_https url = try_except (extract_if_https_body url) Error"

section \<open>Network probes\<close>

text \<open>
  The network is outside the program.  Each capability takes the state of the world and
  returns its answer, \<open>Inl\<close> where the library raises, with the world after the call; so
  two calls with the same argument may answer differently.  \<open>http_get\<close> is
  \<^verbatim>\<open>requests.get(url, timeout=120)\<close> and returns the page content;
  \<open>html_parser\<close> is \<^verbatim>\<open>BeautifulSoup(content, 'html.parser')\<close>, which raises
  \<^verbatim>\<open>ParserRejectedMarkup\<close> on content that the parser rejects; \<open>url_parser\<close> is
  \<^verbatim>\<open>urlparse\<close>; \<open>gethostbyname\<close> is \<^verbatim>\<open>socket.gethostbyname\<close>;
  \<open>getpeercert\<close> is the connection to port 443, the TLS handshake and
  \<^verbatim>\<open>ssock.getpeercert()\<close> of lines 158 to 162; \<open>whois_query\<close> is
  \<^verbatim>\<open>whois.whois\<close>.
\<close>

text \<open>
  The certificate dictionary, as far as lines 163 to 167 read it: the issuer is a
  sequence of relative distinguished names, each a sequence of (key, value) pairs.  A
  field is \<open>None\<close> when the key is absent.
\<close>

record certificate =
  cert_issuer :: "(string \<times> string) list list option"
  cert_notBefore :: "string option"
  cert_notAfter :: "string option"

type_synonym whois_info = "(string \<times> pyval) list"

record 'w env =
  http_get :: "string \<Rightarrow> 'w \<Rightarrow> (exn + string) \<times> 'w"
  html_parser :: "string \<Rightarrow> exn + soup"
  url_parser :: url_parser
  gethostbyname :: "string \<Rightarrow> 'w \<Rightarrow> (exn + string) \<times> 'w"
  getpeercert :: "string \<Rightarrow> 'w \<Rightarrow> (exn + certificate) \<times> 'w"
  whois_query :: "string \<Rightarrow> 'w \<Rightarrow> (exn + whois_info) \<times> 'w"

subsection \<open>Resolve host\<close>

definition extract_ip_address :: "'w env \<Rightarrow> string \<Rightarrow> 'w \<Rightarrow> pyval \<times> 'w" where
  "extract_ip_address env domain w =
     (case gethostbyname env domain w of
        (r, w') \<Rightarrow> (try_except (and_then r (\<lambda>ip_address. Inr (PStr ip_address))) Error, w'))"

subsection \<open>Inspect TLS certificate\<close>

text \<open>Lines 163 to 167, in the order the code reads the fields.\<close>

definition read_certificate ::
  "certificate \<Rightarrow> exn + string \<times> string \<times> string \<times> string \<times> string" where
  "read_certificate cert =
     and_then (lookup (cert_issuer cert)) (\<lambda>i0.
     and_then (subscript i0 0) (\<lambda>rdn0.
     and_then (subscript rdn0 0) (\<lambda>attr0.
     and_then (lookup (cert_issuer cert)) (\<lambda>i1.
     and_then (subscript i1 1) (\<lambda>rdn1.
     and_then (subscript rdn1 0) (\<lambda>attr1.
     and_then (lookup (cert_issuer cert)) (\<lambda>i2.
     and_then (subscript i2 2) (\<lambda>rdn2.
     and_then (subscript rdn2 0) (\<lambda>attr2.
     and_then (lookup (cert_notBefore cert)) (\<lambda>notBefore.
     and_then (lookup (cert_notAfter cert)) (\<lambda>notAfter.
       Inr (snd attr0, snd attr1, snd attr2, notBefore, notAfter))))))))))))"

definition extract_certificate ::
  "'w env \<Rightarrow> string \<Rightarrow> 'w \<Rightarrow> (pyval \<times> pyval \<times> pyval \<times> pyval \<times> pyval) \<times> 'w" where
  "extract_certificate env domain w =
     (case getpeercert env domain w of
        (r, w') \<Rightarrow>
          (try_except
             (and_then r (\<lambda>cert.
              and_then (read_certificate cert) (\<lambda>(country, org, certificatee, notBefore, notAfter).
                Inr (PStr country, PStr org, PStr certificatee, PStr notBefore, PStr notAfter))))
             (Error, Error, Error, Error, Error),
           w'))"

subsection \<open>WHOIS lookup\<close>

definition extract_whois :: "'w env \<Rightarrow> string \<Rightarrow> 'w \<Rightarrow> (pyval \<times> pyval \<times> pyval) \<times> 'w" where
  "extract_whois env domain w =
     (case whois_query env domain w of
        (r, w') \<Rightarrow>
          (try_except
             (and_then r (\<lambda>whois_info.
              and_then (lookup (map_of whois_info ''country'')) (\<lambda>whois_country.
              and_then (lookup (map_of whois_info ''creation_date'')) (\<lambda>whois_creation_date.
              and_then (lookup (map_of whois_info ''expiration_date'')) (\<lambda>whois_expiration_date.
                Inr (whois_country, whois_creation_date, whois_expiration_date))))))
             (Error, Error, Error),
           w'))"

section \<open>Row builder\<close>

text \<open>
  \<^verbatim>\<open>get_row(url, http_url)\<close>, lines 225 to 272.  The row is the dictionary of line 249,
  as an association list in the order of its keys.  The function has no
  \<^verbatim>\<open>try\<close> of its own: what lines 236, 237 and 238 raise leaves it.
\<close>

type_synonym row = "(string \<times> pyval) list"

definition get_row :: "'w env \<Rightarrow> string \<Rightarrow> string \<Rightarrow> 'w \<Rightarrow> (exn + row) \<times> 'w" where
  "get_row env url http_url w =
     (case http_get env http_url w of
        (Inl e, w1) \<Rightarrow> (Inl e, w1)
      | (Inr content, w1) \<Rightarrow>
          (case html_parser env content of
             Inl e \<Rightarrow> (Inl e, w1)
           | Inr soup \<Rightarrow>
           (case url_parser env http_url of
              Inl e \<Rightarrow> (Inl e, w1)
            | Inr parsed_url \<Rightarrow>
                (let domain = netloc parsed_url in
                 (case extract_ip_address env domain w1 of (ip_address, w2) \<Rightarrow>
                 (let link_density = extract_link_density soup in
                 (case extract_link_features (url_parser env) soup domain of
                    (external_links_count, internal_links_count, external_ip_count,
                     https_count, http_count, non_count) \<Rightarrow>
                 (case extract_iframes (url_parser env) soup of
                    (external_iframes_count, hidden_iframes_count) \<Rightarrow>
                 (case extract_certificate env domain w2 of
                    ((country, org, certificate, notBefore, notAfter), w3) \<Rightarrow>
                 (let if_https = extract_if_https url in
                 (case extract_whois env domain w3 of
                    ((whois_country, whois_creation_date, whois_expiration_date), w4) \<Rightarrow>
                   (Inr [(''URL'', PStr url),
                         (''Domain'', PStr domain),
                         (''IP Address'', ip_address),
                         (''Link Density'', link_density),
                         (''External Links Count'', external_links_count),
                         (''Internal Links Count'', internal_links_count),
                         (''External IP Count'', external_ip_count),
                         (''HTTP Count'', http_count),
                         (''HTTPS Count'', https_count),
                         (''Non Count'', non_count),
                         (''External Iframes Count'', external_iframes_count),
                         (''Hidden Iframes Count'', hidden_iframes_count),
                         (''Country'', country),
                         (''Organization'', org),
                         (''Certificate'', certificate),
                         (''Certificate Not Before'', notBefore),
                         (''Certificate Not After'', notAfter),
                         (''If HTTPS'', if_https),
                         (''Whois_country'', whois_country),
                         (''whois_creation_date'', whois_creation_date),
                         (''whois_expiration_date'', whois_expiration_date)],
                    w4))))))))))))"

section \<open>Dataset assembler\<close>

text \<open>
  \<^verbatim>\<open>create_dataset(urls)\<close>, lines 274 to 304.  The table is the list of its rows.
  The local variable \<^verbatim>\<open>http_url\<close> is assigned only under the \<^verbatim>\<open>if\<close> of line 288
  and keeps its value from one pass of the loop to the next, so it is part of the loop
  state: \<open>None\<close> while it is unbound, and reading it then raises
  \<^verbatim>\<open>UnboundLocalError\<close>.  Line 288 is outside the \<^verbatim>\<open>try\<close>.  The two handlers
  catch \<^verbatim>\<open>Timeout\<close> and every other \<^verbatim>\<open>RequestException\<close>; the messages they
  print are not part of the model.
\<close>

fun is_request_exception :: "exn \<Rightarrow> bool" where
  "is_request_exception Timeout = True"
| "is_request_exception (RequestException cause) = True"
| "is_request_exception e = False"

text \<open>Lines 288 and 289: the value of \<^verbatim>\<open>http_url\<close> after them.\<close>

definition normalize :: "parse_result \<Rightarrow> string \<Rightarrow> string option \<Rightarrow> string option" where
  "normalize parsed url http_url =
     (if scheme parsed = [] then Some (''http://'' @ url) else http_url)"

text \<open>
  One pass of the loop, lines 288 to 302, from the table and the value of
  \<^verbatim>\<open>http_url\<close> before the pass to those after it.
\<close>

definition create_dataset_step ::
  "'w env \<Rightarrow> string \<Rightarrow> row list \<Rightarrow> string option \<Rightarrow> 'w
     \<Rightarrow> (exn + row list \<times> string option) \<times> 'w" where
  "create_dataset_step env url df http_url w =
     (case url_parser env url of
        Inl e \<Rightarrow> (Inl e, w)
      | Inr parsed \<Rightarrow>
          (case normalize parsed url http_url of
             None \<Rightarrow> (Inl UnboundLocalError, w)
           | Some target \<Rightarrow>
               (case get_row env url target w of
                  (Inr row, w') \<Rightarrow> (Inr (df @ [row], Some target), w')
                | (Inl e, w') \<Rightarrow>
                    (if is_request_exception e
                     then (Inr (df, Some target), w')
                     else (Inl e, w')))))"

text \<open>The \<^verbatim>\<open>for url in urls\<close> loop: the state after the last pass, or the exception.\<close>

fun create_dataset_loop ::
  "'w env \<Rightarrow> string list \<Rightarrow> row list \<Rightarrow> string option \<Rightarrow> 'w
     \<Rightarrow> (exn + row list \<times> string option) \<times> 'w" where
  "create_dataset_loop env [] df http_url w = (Inr (df, http_url), w)"
| "create_dataset_loop env (url # urls) df http_url w =
     (case create_dataset_step env url df http_url w of
        (Inl e, w') \<Rightarrow> (Inl e, w')
      | (Inr (df', http_url'), w') \<Rightarrow> create_dataset_loop env urls df' http_url' w')"

text \<open>\<^verbatim>\<open>return df\<close>\<close>

definition return_df :: "(exn + row list \<times> string option) \<times> 'w \<Rightarrow> (exn + row list) \<times> 'w" where
  "return_df r = (case r of (Inl e, w) \<Rightarrow> (Inl e, w) | (Inr (df, http_url), w) \<Rightarrow> (Inr df, w))"

definition create_dataset :: "'w env \<Rightarrow> string list \<Rightarrow> 'w \<Rightarrow> (exn + row list) \<times> 'w" where
  "create_dataset env urls w = return_df (create_dataset_loop env urls [] None w)"

section \<open>Dataset curation\<close>

text \<open>
  \<^verbatim>\<open>main()\<close>, lines 310 to 333, from the table read at line 314 (its rows are the
  pairs of the \<^verbatim>\<open>url\<close> and \<^verbatim>\<open>type\<close> columns) to the table of line 333; reading and
  writing the files is outside the model.  \<open>unique\<close> keeps the first occurrence of each
  value, in order, as \<^verbatim>\<open>Series.unique\<close> does.
\<close>

type_synonym label_row = "string \<times> string"

fun unique_acc :: "'a list \<Rightarrow> 'a list \<Rightarrow> 'a list" where
  "unique_acc seen [] = []"
| "unique_acc seen (x # xs) =
     (if x \<in> set seen then unique_acc seen xs else x # unique_acc (x # seen) xs)"

definition unique :: "'a list \<Rightarrow> 'a list" where
  "unique xs = unique_acc [] xs"

definition head :: "'a list \<Rightarrow> nat \<Rightarrow> 'a list" where
  "head df n = take n df"

text \<open>
  \<^verbatim>\<open>pd.merge(data, labels, on='URL', how='left')\<close>: every row of \<open>data\<close>, in order,
  once for each row of \<open>labels\<close> with the same URL, or once with a missing
  \<^verbatim>\<open>type\<close> when there is none.  The table that \<^verbatim>\<open>create_dataset\<close> returns when no
  row was added has no column at all, and the merge then raises \<^verbatim>\<open>KeyError\<close>.
\<close>

definition merge_row :: "label_row list \<Rightarrow> row \<Rightarrow> row list" where
  "merge_row labels r =
     (let matches = filter (\<lambda>l. map_of r ''URL'' = Some (PStr (fst l))) labels
      in if matches = [] then [r @ [(''type'', PNone)]]
         else map (\<lambda>l. r @ [(''type'', PStr (snd l))]) matches)"

definition merge_left :: "row list \<Rightarrow> label_row list \<Rightarrow> exn + row list" where
  "merge_left data labels =
     (if data = [] then Inl KeyError else Inr (concat (map (merge_row labels) data)))"

text \<open>Lines 329 to 332: the two \<^verbatim>\<open>head(400)\<close> and the concatenation.\<close>

definition truncate_and_concat :: "row list \<Rightarrow> row list \<Rightarrow> row list" where
  "truncate_and_concat phishing_data benign_data =
     (let phishing_data = head phishing_data 400;
          phishing_data = head phishing_data 400;
          final_df = phishing_data @ benign_data
      in final_df)"

text \<open>
  \<^verbatim>\<open>final_df.sample(frac=1, random_state=0)\<close>: the rows in the order of the positions
  that the seeded generator draws; \<open>sample_order n\<close> is that order for a table of
  \<open>n\<close> rows, a permutation of the positions below \<open>n\<close>.
\<close>

definition sample_all :: "(nat \<Rightarrow> nat list) \<Rightarrow> row list \<Rightarrow> row list" where
  "sample_all sample_order df = map (\<lambda>i. df ! i) (sample_order (length df))"

definition main ::
  "'w env \<Rightarrow> (nat \<Rightarrow> nat list) \<Rightarrow> label_row list \<Rightarrow> 'w \<Rightarrow> (exn + row list) \<times> 'w" where
  "main env sample_order mal_urls w =
     (let df_phishing = filter (\<lambda>r. snd r = ''phishing'') mal_urls;
          df_benign = filter (\<lambda>r. snd r = ''benign'') mal_urls;
          phish_urls = unique (head (map fst df_phishing) 2000);
          benign_urls = unique (head (map fst df_benign) 1000)
      in (case create_dataset env phish_urls w of
            (Inl e, w1) \<Rightarrow> (Inl e, w1)
          | (Inr phishing_data, w1) \<Rightarrow>
              (case create_dataset env benign_urls w1 of
                 (Inl e, w2) \<Rightarrow> (Inl e, w2)
               | (Inr benign_data, w2) \<Rightarrow>
                   (and_then (merge_left phishing_data df_phishing) (\<lambda>phishing_data.
                    and_then (merge_left benign_data df_benign) (\<lambda>benign_data.
                      Inr (sample_all sample_order
                             (truncate_and_concat phishing_data benign_data)))),
                    w2))))"

section \<open>The URL parser of the standard library\<close>

text \<open>
  A model of \<^verbatim>\<open>urllib.parse.urlsplit\<close> (CPython 3.12) for the three fields above, used
  for the concrete runs below; the general results hold for every parser.  It follows
  the library's steps: strip leading control characters and spaces, delete tab,
  carriage return and line feed, split a scheme off at the first colon when everything
  before it is a scheme character and the first character is a letter, and, after
  \<^verbatim>\<open>//\<close>, take the network location up to the first of \<^verbatim>\<open>/ ? #\<close>.  A network
  location with one square bracket and not the other raises \<^verbatim>\<open>ValueError\<close>; so does
  text before an opening bracket of the host, or between the closing bracket and the
  port.  Two later checks of the library are left out: the validation of the address
  inside a pair of brackets, and the normalisation check of a network location that
  is not ASCII.  Letters are lowered in ASCII only.
\<close>

definition c0_control_or_space :: "char \<Rightarrow> bool" where
  "c0_control_or_space c = (of_char c \<le> (32 :: nat))"

definition unsafe_url_byte :: "char \<Rightarrow> bool" where
  "unsafe_url_byte c = (of_char c \<in> {9, 10, 13 :: nat})"

definition ascii_alpha :: "char \<Rightarrow> bool" where
  "ascii_alpha c = (let n = of_char c :: nat in (65 \<le> n \<and> n \<le> 90) \<or> (97 \<le> n \<and> n \<le> 122))"

definition scheme_char :: "char \<Rightarrow> bool" where
  "scheme_char c =
     (let n = of_char c :: nat
      in ascii_alpha c \<or> (48 \<le> n \<and> n \<le> 57) \<or> c = CHR ''+'' \<or> c = CHR ''-'' \<or> c = CHR ''.'')"

definition lower_char :: "char \<Rightarrow> char" where
  "lower_char c = (let n = of_char c :: nat in if 65 \<le> n \<and> n \<le> 90 then char_of (n + 32) else c)"

text \<open>\<^verbatim>\<open>s.rpartition(c)[2]\<close>, and the parts of \<^verbatim>\<open>s.partition(c)\<close>.\<close>

definition after_last :: "char \<Rightarrow> string \<Rightarrow> string" where
  "after_last c s = rev (takeWhile (\<lambda>x. x \<noteq> c) (rev s))"

definition before_first :: "char \<Rightarrow> string \<Rightarrow> string" where
  "before_first c s = takeWhile (\<lambda>x. x \<noteq> c) s"

definition after_first :: "char \<Rightarrow> string \<Rightarrow> string" where
  "after_first c s = drop 1 (dropWhile (\<lambda>x. x \<noteq> c) s)"

definition split_scheme :: "string \<Rightarrow> string \<times> string" where
  "split_scheme url =
     (if CHR '':'' \<in> set url \<and> before_first CHR '':'' url \<noteq> [] \<and> ascii_alpha (hd url)
         \<and> list_all scheme_char (before_first CHR '':'' url)
      then (map lower_char (before_first CHR '':'' url), after_first CHR '':'' url)
      else ([], url))"

definition splitnetloc :: "string \<Rightarrow> string" where
  "splitnetloc url =
     takeWhile (\<lambda>c. c \<noteq> CHR ''/'' \<and> c \<noteq> CHR ''?'' \<and> c \<noteq> CHR ''#'') (drop 2 url)"

definition bracketed_netloc_ok :: "string \<Rightarrow> bool" where
  "bracketed_netloc_ok nl =
     (let hostname_and_port = after_last CHR ''@'' nl
      in if CHR ''['' \<in> set hostname_and_port
         then before_first CHR ''['' hostname_and_port = []
              \<and> (let port = after_first CHR '']'' (after_first CHR ''['' hostname_and_port)
                 in port = [] \<or> hd port = CHR '':'')
         else True)"

definition hostname_of :: "string \<Rightarrow> string option" where
  "hostname_of nl =
     (let hostinfo = after_last CHR ''@'' nl;
          host = (if CHR ''['' \<in> set hostinfo
                  then before_first CHR '']'' (after_first CHR ''['' hostinfo)
                  else before_first CHR '':'' hostinfo)
      in if host = [] then None
         else Some (map lower_char (before_first CHR ''%'' host)
                    @ dropWhile (\<lambda>x. x \<noteq> CHR ''%'') host))"

definition py_urlparse :: url_parser where
  "py_urlparse url0 =
     (let url1 = filter (\<lambda>c. \<not> unsafe_url_byte c) (dropWhile c0_control_or_space url0);
          sch = fst (split_scheme url1);
          url2 = snd (split_scheme url1)
      in if take 2 url2 = ''//''
         then (let nl = splitnetloc url2
               in if (CHR ''['' \<in> set nl \<and> CHR '']'' \<notin> set nl)
                     \<or> (CHR '']'' \<in> set nl \<and> CHR ''['' \<notin> set nl)
                  then Inl ValueError
                  else if CHR ''['' \<in> set nl \<and> CHR '']'' \<in> set nl \<and> \<not> bracketed_netloc_ok nl
                  then Inl ValueError
                  else Inr \<lparr>scheme = sch, netloc = nl, hostname = hostname_of nl\<rparr>)
         else Inr \<lparr>scheme = sch, netloc = [], hostname = None\<rparr>)"

section \<open>A concrete world for the runs\<close>

text \<open>
  A world in which the host \<^verbatim>\<open>example.com\<close> answers every probe, \<^verbatim>\<open>page-only.test\<close>
  serves a page but answers no probe, \<^verbatim>\<open>odd-markup.test\<close> serves the content
  \<^verbatim>\<open><![foo bar]>\<close>, a marked section with an unknown keyword, which the HTML parser
  rejects, \<^verbatim>\<open>two-rdn.test\<close> presents a certificate whose issuer has two relative
  distinguished names only, \<^verbatim>\<open>slow.test\<close> times out and every other host refuses
  the connection.  The state of the world is the number of network
  calls made so far.  The HTTP client accepts a fetch target whose user-information part
  holds a square bracket (it percent-encodes it) and fetches the page of the host.
  Every other page parses to \<open>demo_soup\<close>.
\<close>

definition demo_soup :: soup where
  "demo_soup =
     [Tag ''html'' []
        [Tag ''body'' []
           [Tag ''a'' [(''href'', ''https://other.com/x'')] [NavigableString ''other site''],
            Tag ''a'' [(''href'', ''/about'')] [NavigableString ''about''],
            Tag ''a'' [(''href'', ''http://example.com/home'')] [NavigableString ''home''],
            Tag ''a'' [(''name'', ''top'')] [],
            Tag ''iframe'' [(''src'', ''//ads.example.net''), (''width'', ''0'')] [],
            Tag ''iframe'' [(''src'', ''http://your-website-domain.com/w''), (''height'', ''0px'')] [],
            Comment ''not text'']]]"

definition demo_certificate :: certificate where
  "demo_certificate =
     \<lparr>cert_issuer = Some [[(''countryName'', ''US'')],
                          [(''organizationName'', ''DigiCert Inc'')],
                          [(''commonName'', ''DigiCert Global G3 TLS ECC SHA384 2020 CA1'')]],
      cert_notBefore = Some ''Jan 15 00:00:00 2025 GMT'',
      cert_notAfter = Some ''Jan 15 23:59:59 2026 GMT''\<rparr>"

text \<open>A certificate whose issuer has only two relative distinguished names.\<close>

definition short_certificate :: certificate where
  "short_certificate =
     \<lparr>cert_issuer = Some [[(''countryName'', ''US'')], [(''organizationName'', ''Example CA'')]],
      cert_notBefore = Some ''Jan 15 00:00:00 2025 GMT'',
      cert_notAfter = Some ''Jan 15 23:59:59 2026 GMT''\<rparr>"

definition demo_env :: "nat env" where
  "demo_env =
     \<lparr>http_get = (\<lambda>url w.
        (if url = ''http://example.com'' \<or> url = ''http://[user@example.com''
            \<or> url = ''http://page-only.test''
         then Inr ''<html>''
         else if url = ''http://odd-markup.test'' then Inr ''<![foo bar]>''
         else if url = ''http://slow.test'' then Inl Timeout
         else Inl (RequestException ''connection refused''), Suc w)),
      html_parser = (\<lambda>content.
        if content = ''<![foo bar]>'' then Inl ParserRejectedMarkup else Inr demo_soup),
      url_parser = py_urlparse,
      gethostbyname = (\<lambda>domain w.
        (if domain = ''example.com'' then Inr ''93.184.215.14'' else Inl OSError, Suc w)),
      getpeercert = (\<lambda>domain w.
        (if domain = ''example.com'' then Inr demo_certificate
         else if domain = ''two-rdn.test'' then Inr short_certificate
         else Inl OSError, Suc w)),
      whois_query = (\<lambda>domain w.
        (if domain = ''example.com''
         then Inr [(''country'', PNone),
                   (''creation_date'', PStr ''1995-08-14''),
                   (''expiration_date'', PStr ''2026-08-13'')]
         else if domain = ''two-rdn.test'' then Inr [(''country'', PStr ''US'')]
         else Inl OSError, Suc w))\<rparr>"

section \<open>Link density\<close>

text \<open>
  Claim C7.  The body of the link density never raises.  When the visible text of the
  document has no word, the link density is the integer 0: the division is not
  evaluated.  When it has at least one word, the link density is the number of anchor
  tags divided by the number of words, which is not negative.
\<close>

theorem link_density_zero_words_and_ratio:
  "(\<exists>v. extract_link_density_body soup = Inr v) \<and>
   (length (split (get_text soup '' '')) = 0 \<longrightarrow> extract_link_density soup = PInt 0) \<and>
   (0 < length (split (get_text soup '' '')) \<longrightarrow>
      extract_link_density soup =
        PFloat (of_nat (length (find_all soup ''a'')) / of_nat (length (split (get_text soup '' ''))))
      \<and> (0::rat) \<le> of_nat (length (find_all soup ''a'')) / of_nat (length (split (get_text soup '' ''))))"
  by (simp add: extract_link_density_def extract_link_density_body_def try_except_def
                and_then_def truediv_def Let_def)

theorem link_density_zero_words_and_ratio_witness:
  "length (split (get_text [Tag ''a'' [(''href'', ''/x'')] [NavigableString '' '']] '' '')) = 0
   \<and> extract_link_density [Tag ''a'' [(''href'', ''/x'')] [NavigableString '' '']] = PInt 0
   \<and> 0 < length (split (get_text demo_soup '' ''))
   \<and> extract_link_density demo_soup = PFloat 1"
proof -
  have z: "length (split (get_text [Tag ''a'' [(''href'', ''/x'')] [NavigableString '' '']] '' '')) = 0"
    by code_simp
  have a: "length (find_all demo_soup ''a'') = 4" by code_simp
  have b: "length (split (get_text demo_soup '' '')) = 4" by code_simp
  from link_density_zero_words_and_ratio[of "[Tag ''a'' [(''href'', ''/x'')] [NavigableString '' '']]"]
       link_density_zero_words_and_ratio[of demo_soup] z a b
  show ?thesis by simp
qed

section \<open>HTTPS flag\<close>

lemma get_row_if_https:
  "get_row env url http_url w = (Inr row, w') \<Longrightarrow>
     map_of row ''If HTTPS'' = Some (extract_if_https url)"
  unfolding get_row_def
  by (auto simp: Let_def split: prod.splits sum.splits)

text \<open>
  Claim C2 says that the flag is 1 exactly when the original URL string begins with the
  https scheme, and 0 for a URL presented with the http scheme.  Line 187 tests the
  prefix \<^verbatim>\<open>http\<close> beside \<^verbatim>\<open>https\<close>, so a URL presented with the http scheme gets
  the flag 1, in the function and in the row, against the docstring of the function
  (1 if HTTPS, 0 otherwise).  A URL with the https scheme gets 1 and the URL
  \<^verbatim>\<open>example.com\<close>, without a scheme, gets 0, as the claim says.
\<close>

theorem if_https_flag_of_http_url:
  "extract_if_https ''http://example.com'' = PInt 1
   \<and> \<not> startswith ''http://example.com'' ''https''
   \<and> map_of (projr (fst (get_row demo_env ''http://example.com'' ''http://example.com'' 0)))
        ''If HTTPS'' = Some (PInt 1)
   \<and> extract_if_https ''https://example.com'' = PInt 1
   \<and> extract_if_https ''example.com'' = PInt 0"
  by code_simp

section \<open>Link classification\<close>

lemma link_step_scheme:
  "link_step d p (e, i, ip, hs, h, n) = (e', i', ip', hs', h', n') \<Longrightarrow>
     (hs' = hs + 1 \<and> h' = h \<and> n' = n) \<or> (hs' = hs \<and> h' = h + 1 \<and> n' = n)
     \<or> (hs' = hs \<and> h' = h \<and> n' = n + 1)"
  by (auto simp: Let_def split: if_splits)

lemma link_step_locality:
  "link_step d p (e, i, ip, hs, h, n) = (e', i', ip', hs', h', n') \<Longrightarrow>
     (if netloc p = [] then e' = e \<and> i' = i
      else if str_in d (netloc p) then e' = e \<and> i' = i + 1
      else e' = e + 1 \<and> i' = i)"
  by (auto simp: Let_def split: if_splits)

lemma link_loop_sums:
  "link_loop up d links (e, i, ip, hs, h, n) = Inr (e', i', ip', hs', h', n') \<Longrightarrow>
     hs' + h' + n' = hs + h + n + length links
     \<and> e' + i' = e + i + length (filter (\<lambda>l. case up l of Inl x \<Rightarrow> False | Inr p \<Rightarrow> netloc p \<noteq> []) links)"
proof (induction links arbitrary: e i ip hs h n)
  case Nil
  then show ?case by simp
next
  case (Cons l ls)
  from Cons.prems obtain p where p: "up l = Inr p"
    and rest: "link_loop up d ls (link_step d p (e, i, ip, hs, h, n)) = Inr (e', i', ip', hs', h', n')"
    by (auto split: sum.splits)
  obtain e2 i2 ip2 hs2 h2 n2 where
    st: "link_step d p (e, i, ip, hs, h, n) = (e2, i2, ip2, hs2, h2, n2)"
    by (cases "link_step d p (e, i, ip, hs, h, n)") auto
  from link_step_scheme[OF st] have s: "hs2 + h2 + n2 = Suc (hs + h + n)" by auto
  from link_step_locality[OF st]
  have t: "e2 + i2 = e + i + (if netloc p = [] then 0 else 1)" by (auto split: if_splits)
  from Cons.IH[of e2 i2 ip2 hs2 h2 n2] rest st
  have "hs' + h' + n' = hs2 + h2 + n2 + length ls
     \<and> e' + i' = e2 + i2 + length (filter (\<lambda>l. case up l of Inl x \<Rightarrow> False | Inr p \<Rightarrow> netloc p \<noteq> []) ls)"
    by simp
  with s t p show ?case by simp
qed

lemma link_loop_returns:
  "(\<forall>l \<in> set links. \<exists>p. up l = Inr p) \<Longrightarrow> \<exists>c'. link_loop up d links c = Inr c'"
  by (induction links arbitrary: c) (auto split: sum.splits)

lemma link_loop_raises:
  "\<exists>l \<in> set links. \<exists>x. up l = Inl x \<Longrightarrow> \<exists>x. link_loop up d links c = Inl x"
proof (induction links arbitrary: c)
  case Nil then show ?case by simp
next
  case (Cons l ls)
  show ?case
  proof (cases "up l")
    case (Inl x) then show ?thesis by simp
  next
    case (Inr p)
    with Cons.prems have "\<exists>l \<in> set ls. \<exists>x. up l = Inl x" by auto
    from Cons.IH[OF this] Inr show ?thesis by simp
  qed
qed

lemma parses_or_raises:
  "(\<forall>l \<in> set links. \<exists>p. up l = Inr p) \<or> (\<exists>l \<in> set links. \<exists>x. up l = Inl x)"
  by (metis sum.exhaust)

lemma extract_link_features_cases:
  "(\<exists>link \<in> set (hrefs soup). \<exists>x. urlparse link = Inl x)
     \<and> extract_link_features urlparse soup domain = (Error, Error, Error, Error, Error, Error)
   \<or> (\<forall>link \<in> set (hrefs soup). \<exists>p. urlparse link = Inr p) \<and> (\<exists>e i ip hs h n.
        link_loop urlparse domain (hrefs soup) (0, 0, 0, 0, 0, 0) = Inr (e, i, ip, hs, h, n)
        \<and> extract_link_features urlparse soup domain
            = (PInt (int e), PInt (int i), PInt (int ip), PInt (int hs), PInt (int h), PInt (int n)))"
proof -
  from parses_or_raises[of "hrefs soup" urlparse]
  show ?thesis
  proof
    assume a: "\<forall>l \<in> set (hrefs soup). \<exists>p. urlparse l = Inr p"
    from link_loop_returns[OF a, of domain "(0, 0, 0, 0, 0, 0)"]
    obtain c' where c': "link_loop urlparse domain (hrefs soup) (0, 0, 0, 0, 0, 0) = Inr c'" by blast
    obtain e i ip hs h n where "c' = (e, i, ip, hs, h, n)" by (cases c') auto
    with c' a show ?thesis
      by (auto simp: extract_link_features_def extract_link_features_body_def try_except_def)
  next
    assume a: "\<exists>l \<in> set (hrefs soup). \<exists>x. urlparse l = Inl x"
    from link_loop_raises[OF a, of domain "(0, 0, 0, 0, 0, 0)"]
    obtain x where "link_loop urlparse domain (hrefs soup) (0, 0, 0, 0, 0, 0) = Inl x" by blast
    with a show ?thesis
      by (auto simp: extract_link_features_def extract_link_features_body_def try_except_def)
  qed
qed

text \<open>
  Claim C8.  One pass of the loop over the anchors with an href adds one to exactly one
  of the https, http and non counters.  So, for every document: either the parser
  rejects one of the hrefs and all six results are the failure marker, or the six
  results are integers and https + http + non is the number of anchors with an href.
\<close>

theorem scheme_buckets_partition:
  "(link_step domain parsed (e0, i0, ip0, hs0, h0, n0) = (e1, i1, ip1, hs1, h1, n1) \<longrightarrow>
      (hs1 = hs0 + 1 \<and> h1 = h0 \<and> n1 = n0) \<or> (hs1 = hs0 \<and> h1 = h0 + 1 \<and> n1 = n0)
      \<or> (hs1 = hs0 \<and> h1 = h0 \<and> n1 = n0 + 1))
   \<and> ((\<exists>link \<in> set (hrefs soup). \<exists>x. urlparse link = Inl x)
        \<and> extract_link_features urlparse soup domain = (Error, Error, Error, Error, Error, Error)
      \<or> (\<exists>e i ip hs h n.
           extract_link_features urlparse soup domain
             = (PInt e, PInt i, PInt ip, PInt hs, PInt h, PInt n)
           \<and> hs + h + n = int (length (hrefs soup))))"
proof -
  from extract_link_features_cases[of soup urlparse domain]
  have "(\<exists>link \<in> set (hrefs soup). \<exists>x. urlparse link = Inl x)
        \<and> extract_link_features urlparse soup domain = (Error, Error, Error, Error, Error, Error)
      \<or> (\<exists>e i ip hs h n.
           extract_link_features urlparse soup domain
             = (PInt e, PInt i, PInt ip, PInt hs, PInt h, PInt n)
           \<and> hs + h + n = int (length (hrefs soup)))"
  proof
    assume "(\<exists>link \<in> set (hrefs soup). \<exists>x. urlparse link = Inl x)
     \<and> extract_link_features urlparse soup domain = (Error, Error, Error, Error, Error, Error)"
    then show ?thesis by blast
  next
    assume "(\<forall>link \<in> set (hrefs soup). \<exists>p. urlparse link = Inr p) \<and> (\<exists>e i ip hs h n.
        link_loop urlparse domain (hrefs soup) (0, 0, 0, 0, 0, 0) = Inr (e, i, ip, hs, h, n)
        \<and> extract_link_features urlparse soup domain
            = (PInt (int e), PInt (int i), PInt (int ip), PInt (int hs), PInt (int h), PInt (int n)))"
    then obtain e i ip hs h n where
      l: "link_loop urlparse domain (hrefs soup) (0, 0, 0, 0, 0, 0) = Inr (e, i, ip, hs, h, n)"
      and r: "extract_link_features urlparse soup domain
            = (PInt (int e), PInt (int i), PInt (int ip), PInt (int hs), PInt (int h), PInt (int n))"
      by blast
    from link_loop_sums[OF l] have "int hs + int h + int n = int (length (hrefs soup))" by simp
    with r show ?thesis by blast
  qed
  with link_step_scheme[of domain parsed e0 i0 ip0 hs0 h0 n0 e1 i1 ip1 hs1 h1 n1]
  show ?thesis by blast
qed


theorem scheme_buckets_partition_witness:
  "link_step ''site.com'' \<lparr>scheme = ''https'', netloc = ''other.com'', hostname = Some ''other.com''\<rparr>
     (0, 0, 0, 0, 0, 0) = (1, 0, 0, 1, 0, 0)
   \<and> extract_link_features py_urlparse demo_soup ''example.com''
       = (PInt 1, PInt 1, PInt 0, PInt 1, PInt 1, PInt 1)
   \<and> length (hrefs demo_soup) = 3
   \<and> (\<exists>link \<in> set (hrefs [Tag ''a'' [(''href'', ''http://[bad'')] []]). \<exists>x. py_urlparse link = Inl x)
   \<and> extract_link_features py_urlparse [Tag ''a'' [(''href'', ''http://[bad'')] []] ''example.com''
       = (Error, Error, Error, Error, Error, Error)"
proof -
  have a: "link_step ''site.com''
      \<lparr>scheme = ''https'', netloc = ''other.com'', hostname = Some ''other.com''\<rparr>
      (0, 0, 0, 0, 0, 0) = (1, 0, 0, 1, 0, 0)"
    by code_simp
  have b: "extract_link_features py_urlparse demo_soup ''example.com''
       = (PInt 1, PInt 1, PInt 0, PInt 1, PInt 1, PInt 1)"
    by code_simp
  have c: "hrefs [Tag ''a'' [(''href'', ''http://[bad'')] []] = [''http://[bad'']"
    by code_simp
  have d: "py_urlparse ''http://[bad'' = Inl ValueError"
    by code_simp
  have e: "length (hrefs demo_soup) = 3"
    by code_simp
  have f: "extract_link_features py_urlparse [Tag ''a'' [(''href'', ''http://[bad'')] []] ''example.com''
       = (Error, Error, Error, Error, Error, Error)"
    by code_simp
  from scheme_buckets_partition[of "''site.com''"
         "\<lparr>scheme = ''https'', netloc = ''other.com'', hostname = Some ''other.com''\<rparr>"
         0 0 0 0 0 0 1 0 0 1 0 0 demo_soup py_urlparse, THEN conjunct1]
       scheme_buckets_partition[of "''example.com''"
         "\<lparr>scheme = [], netloc = [], hostname = None\<rparr>" 0 0 0 0 0 0 0 0 0 0 0 0
         demo_soup py_urlparse, THEN conjunct2]
       a b c d e f
  show ?thesis by simp
qed

text \<open>
  Claim C10.  One pass of the loop leaves the external and internal counters alone when
  the link has no network location, and otherwise adds one to exactly one of them: to
  the internal counter when the reference domain is a substring of the network
  location, to the external counter when it is not.  So, for every document and
  reference domain: either the parser rejects one of the hrefs and all six results are
  the failure marker, or external + internal is the number of hrefs with a network
  location.
\<close>

theorem external_internal_partition:
  "(link_step domain parsed (e0, i0, ip0, hs0, h0, n0) = (e1, i1, ip1, hs1, h1, n1) \<longrightarrow>
      (if netloc parsed = [] then e1 = e0 \<and> i1 = i0
       else if str_in domain (netloc parsed) then e1 = e0 \<and> i1 = i0 + 1
       else e1 = e0 + 1 \<and> i1 = i0))
   \<and> ((\<exists>link \<in> set (hrefs soup). \<exists>x. urlparse link = Inl x)
        \<and> extract_link_features urlparse soup domain = (Error, Error, Error, Error, Error, Error)
      \<or> (\<exists>e i ip hs h n.
           extract_link_features urlparse soup domain
             = (PInt e, PInt i, PInt ip, PInt hs, PInt h, PInt n)
           \<and> e + i = int (length (filter
                 (\<lambda>link. case urlparse link of Inl x \<Rightarrow> False | Inr p \<Rightarrow> netloc p \<noteq> [])
                 (hrefs soup)))))"
proof -
  from extract_link_features_cases[of soup urlparse domain]
  have "(\<exists>link \<in> set (hrefs soup). \<exists>x. urlparse link = Inl x)
        \<and> extract_link_features urlparse soup domain = (Error, Error, Error, Error, Error, Error)
      \<or> (\<exists>e i ip hs h n.
           extract_link_features urlparse soup domain
             = (PInt e, PInt i, PInt ip, PInt hs, PInt h, PInt n)
           \<and> e + i = int (length (filter
                 (\<lambda>link. case urlparse link of Inl x \<Rightarrow> False | Inr p \<Rightarrow> netloc p \<noteq> [])
                 (hrefs soup))))"
  proof
    assume "(\<exists>link \<in> set (hrefs soup). \<exists>x. urlparse link = Inl x)
     \<and> extract_link_features urlparse soup domain = (Error, Error, Error, Error, Error, Error)"
    then show ?thesis by blast
  next
    assume "(\<forall>link \<in> set (hrefs soup). \<exists>p. urlparse link = Inr p) \<and> (\<exists>e i ip hs h n.
        link_loop urlparse domain (hrefs soup) (0, 0, 0, 0, 0, 0) = Inr (e, i, ip, hs, h, n)
        \<and> extract_link_features urlparse soup domain
            = (PInt (int e), PInt (int i), PInt (int ip), PInt (int hs), PInt (int h), PInt (int n)))"
    then obtain e i ip hs h n where
      l: "link_loop urlparse domain (hrefs soup) (0, 0, 0, 0, 0, 0) = Inr (e, i, ip, hs, h, n)"
      and r: "extract_link_features urlparse soup domain
            = (PInt (int e), PInt (int i), PInt (int ip), PInt (int hs), PInt (int h), PInt (int n))"
      by blast
    from link_loop_sums[OF l]
    have "int e + int i = int (length (filter
                 (\<lambda>link. case urlparse link of Inl x \<Rightarrow> False | Inr p \<Rightarrow> netloc p \<noteq> [])
                 (hrefs soup)))" by simp
    with r show ?thesis by blast
  qed
  with link_step_locality[of domain parsed e0 i0 ip0 hs0 h0 n0 e1 i1 ip1 hs1 h1 n1]
  show ?thesis by blast
qed

theorem external_internal_partition_witness:
  "link_step ''site.com'' \<lparr>scheme = ''https'', netloc = ''other.com'', hostname = Some ''other.com''\<rparr>
     (0, 0, 0, 0, 0, 0) = (1, 0, 0, 1, 0, 0)
   \<and> \<not> str_in ''site.com'' ''other.com''
   \<and> extract_link_features py_urlparse
        [Tag ''a'' [(''href'', ''https://other.com/x'')] [],
         Tag ''a'' [(''href'', ''//site.com/a'')] [],
         Tag ''a'' [(''href'', ''/relative'')] []] ''site.com''
       = (PInt 1, PInt 1, PInt 0, PInt 1, PInt 0, PInt 2)
   \<and> length (filter (\<lambda>link. case py_urlparse link of Inl x \<Rightarrow> False | Inr p \<Rightarrow> netloc p \<noteq> [])
        (hrefs [Tag ''a'' [(''href'', ''https://other.com/x'')] [],
                Tag ''a'' [(''href'', ''//site.com/a'')] [],
                Tag ''a'' [(''href'', ''/relative'')] []])) = 2"
proof -
  have a: "link_step ''site.com''
      \<lparr>scheme = ''https'', netloc = ''other.com'', hostname = Some ''other.com''\<rparr>
      (0, 0, 0, 0, 0, 0) = (1, 0, 0, 1, 0, 0)"
    by code_simp
  have b: "extract_link_features py_urlparse
        [Tag ''a'' [(''href'', ''https://other.com/x'')] [],
         Tag ''a'' [(''href'', ''//site.com/a'')] [],
         Tag ''a'' [(''href'', ''/relative'')] []] ''site.com''
       = (PInt 1, PInt 1, PInt 0, PInt 1, PInt 0, PInt 2)"
    by code_simp
  have c: "\<not> str_in ''site.com'' ''other.com''"
    by code_simp
  have d: "length (filter (\<lambda>link. case py_urlparse link of Inl x \<Rightarrow> False | Inr p \<Rightarrow> netloc p \<noteq> [])
        (hrefs [Tag ''a'' [(''href'', ''https://other.com/x'')] [],
                Tag ''a'' [(''href'', ''//site.com/a'')] [],
                Tag ''a'' [(''href'', ''/relative'')] []])) = 2"
    by code_simp
  from external_internal_partition[of "''site.com''"
         "\<lparr>scheme = ''https'', netloc = ''other.com'', hostname = Some ''other.com''\<rparr>"
         0 0 0 0 0 0 1 0 0 1 0 0
         "[Tag ''a'' [(''href'', ''https://other.com/x'')] [],
           Tag ''a'' [(''href'', ''//site.com/a'')] [],
           Tag ''a'' [(''href'', ''/relative'')] []]" py_urlparse]
       a b c d
  show ?thesis by simp
qed

section \<open>Iframe analysis\<close>

lemma iframe_loop_counts:
  "\<forall>f \<in> set fs. \<exists>p. up (iframe_src f) = Inr p \<Longrightarrow>
     iframe_loop up fs (e, h)
       = Inr (e + length (filter (spec_external_iframe up) fs),
              h + length (filter spec_hidden_iframe fs))"
  by (induction fs arbitrary: e h)
     (auto simp: Let_def spec_external_iframe_def spec_hidden_iframe_def)

lemma iframe_loop_raises:
  "\<exists>f \<in> set fs. \<exists>x. up (iframe_src f) = Inl x \<Longrightarrow> \<exists>x. iframe_loop up fs c = Inl x"
proof (induction fs arbitrary: c)
  case Nil then show ?case by simp
next
  case (Cons f fs)
  obtain e h where c: "c = (e, h)" by (cases c) auto
  show ?case
  proof (cases "up (iframe_src f)")
    case (Inl x) then show ?thesis using c by (simp add: Let_def)
  next
    case (Inr p)
    with Cons.prems have "\<exists>f \<in> set fs. \<exists>x. up (iframe_src f) = Inl x" by auto
    from Cons.IH[OF this] Inr c show ?thesis by (simp add: Let_def)
  qed
qed

text \<open>
  Claim C9.  For every document: either the parser rejects the \<open>src\<close> of one of the
  iframes and both results are the failure marker, or the external count is the number
  of iframes whose \<open>src\<close> has a network location and does not hold the placeholder, and
  the hidden count is the number of iframes whose width or height attribute is the
  string \<^verbatim>\<open>0\<close>.  Each count has its own condition, so one iframe may count for both,
  for one or for neither.
\<close>

theorem iframe_counters:
  "(\<exists>iframe \<in> set (find_all soup ''iframe''). \<exists>x. urlparse (iframe_src iframe) = Inl x)
     \<and> extract_iframes urlparse soup = (Error, Error)
   \<or> extract_iframes urlparse soup
        = (PInt (int (length (filter (spec_external_iframe urlparse) (find_all soup ''iframe'')))),
           PInt (int (length (filter spec_hidden_iframe (find_all soup ''iframe'')))))"
proof (cases "\<forall>f \<in> set (find_all soup ''iframe''). \<exists>p. urlparse (iframe_src f) = Inr p")
  case True
  from iframe_loop_counts[OF True, of 0 0] show ?thesis
    by (simp add: extract_iframes_def extract_iframes_body_def try_except_def)
next
  case False
  then have a: "\<exists>f \<in> set (find_all soup ''iframe''). \<exists>x. urlparse (iframe_src f) = Inl x"
    by (metis sum.exhaust)
  from iframe_loop_raises[OF a, of "(0, 0)"]
  obtain x where "iframe_loop urlparse (find_all soup ''iframe'') (0, 0) = Inl x" by blast
  with a show ?thesis
    by (simp add: extract_iframes_def extract_iframes_body_def try_except_def)
qed

theorem iframe_counters_witness:
  "extract_iframes py_urlparse [Tag ''iframe'' [(''src'', ''//ads.example.net''), (''width'', ''0'')] []]
     = (PInt 1, PInt 1)
   \<and> extract_iframes py_urlparse [Tag ''iframe'' [(''src'', ''//ads.example.net''), (''width'', ''0px'')] []]
     = (PInt 1, PInt 0)
   \<and> extract_iframes py_urlparse [Tag ''iframe'' [(''src'', ''/local.html''), (''height'', ''0'')] []]
     = (PInt 0, PInt 1)
   \<and> extract_iframes py_urlparse [Tag ''iframe'' [(''src'', ''http://your-website-domain.com/w'')] []]
     = (PInt 0, PInt 0)
   \<and> extract_iframes py_urlparse [Tag ''iframe'' [(''src'', ''//[ads'')] []] = (Error, Error)"
proof -
  have a: "find_all [Tag ''iframe'' [(''src'', ''//ads.example.net''), (''width'', ''0'')] []] ''iframe''
      = [Tag ''iframe'' [(''src'', ''//ads.example.net''), (''width'', ''0'')] []]"
    by code_simp
  have b: "spec_external_iframe py_urlparse (Tag ''iframe'' [(''src'', ''//ads.example.net''), (''width'', ''0'')] [])"
    by code_simp
  have c: "spec_hidden_iframe (Tag ''iframe'' [(''src'', ''//ads.example.net''), (''width'', ''0'')] [])"
    by code_simp
  have d: "py_urlparse (iframe_src (Tag ''iframe'' [(''src'', ''//ads.example.net''), (''width'', ''0'')] []))
      = Inr \<lparr>scheme = [], netloc = ''ads.example.net'', hostname = Some ''ads.example.net''\<rparr>"
    by code_simp
  from iframe_counters[of "[Tag ''iframe'' [(''src'', ''//ads.example.net''), (''width'', ''0'')] []]" py_urlparse]
    a b c d
  have one: "extract_iframes py_urlparse [Tag ''iframe'' [(''src'', ''//ads.example.net''), (''width'', ''0'')] []]
     = (PInt 1, PInt 1)"
    by simp
  have two: "extract_iframes py_urlparse [Tag ''iframe'' [(''src'', ''//ads.example.net''), (''width'', ''0px'')] []]
     = (PInt 1, PInt 0)"
    by code_simp
  have three: "extract_iframes py_urlparse [Tag ''iframe'' [(''src'', ''/local.html''), (''height'', ''0'')] []]
     = (PInt 0, PInt 1)"
    by code_simp
  have four: "extract_iframes py_urlparse [Tag ''iframe'' [(''src'', ''http://your-website-domain.com/w'')] []]
     = (PInt 0, PInt 0)"
    by code_simp
  have five: "extract_iframes py_urlparse [Tag ''iframe'' [(''src'', ''//[ads'')] []] = (Error, Error)"
    by code_simp
  from one two three four five show ?thesis by simp
qed

section \<open>TLS certificate\<close>

lemma try_except_Inl: "try_except (Inl x) marker = marker"
  by (simp add: try_except_def)

lemma try_except_Inr: "try_except (Inr v) marker = v"
  by (simp add: try_except_def)

lemma and_then_Inl: "and_then (Inl x) f = Inl x"
  by (simp add: and_then_def)

lemma and_then_Inr: "and_then (Inr v) f = f v"
  by (simp add: and_then_def)

lemma extract_certificate_raised:
  assumes "getpeercert env domain w = (Inl x, w')"
  shows "extract_certificate env domain w = ((Error, Error, Error, Error, Error), w')"
  using assms by (simp add: extract_certificate_def and_then_Inl try_except_Inl)

lemma extract_certificate_unreadable:
  assumes "getpeercert env domain w = (Inr cert, w')" and "read_certificate cert = Inl x"
  shows "extract_certificate env domain w = ((Error, Error, Error, Error, Error), w')"
  using assms by (simp add: extract_certificate_def and_then_Inl and_then_Inr try_except_Inl)

lemma extract_certificate_read:
  assumes "getpeercert env domain w = (Inr cert, w')"
    and "read_certificate cert = Inr (country, org, cn, nb, na)"
  shows "extract_certificate env domain w
           = ((PStr country, PStr org, PStr cn, PStr nb, PStr na), w')"
  using assms by (simp add: extract_certificate_def and_then_Inr try_except_Inr)

lemma read_certificate_short_issuer:
  assumes "cert_issuer cert = Some rdns" and "length rdns < 3"
  shows "\<exists>x. read_certificate cert = Inl x"
  using assms
  by (auto simp: read_certificate_def lookup_def subscript_def and_then_def split: sum.splits)

text \<open>
  Claim C5.  When the connection or the handshake raises, or when one of the reads of
  lines 163 to 167 raises on the certificate, all five results are the failure marker.
  In every case the five results are either five failure markers or the five fields
  read from the certificate: a certificate of which only some fields could be read
  gives five failure markers.
\<close>

theorem certificate_failure_is_atomic:
  "((\<exists>x. fst (getpeercert env domain w) = Inl x)
      \<or> (\<exists>cert x. fst (getpeercert env domain w) = Inr cert \<and> read_certificate cert = Inl x)
     \<longrightarrow> fst (extract_certificate env domain w) = (Error, Error, Error, Error, Error))
   \<and> (fst (extract_certificate env domain w) = (Error, Error, Error, Error, Error)
      \<or> (\<exists>cert country org cn nb na.
            fst (getpeercert env domain w) = Inr cert
            \<and> read_certificate cert = Inr (country, org, cn, nb, na)
            \<and> fst (extract_certificate env domain w)
                = (PStr country, PStr org, PStr cn, PStr nb, PStr na)))"
proof -
  obtain r w' where g: "getpeercert env domain w = (r, w')"
    by (cases "getpeercert env domain w") auto
  show ?thesis
  proof (cases r)
    case (Inl x)
    with g extract_certificate_raised[of env domain w x w'] show ?thesis by simp
  next
    case (Inr cert)
    show ?thesis
    proof (cases "read_certificate cert")
      case (Inl x)
      with g Inr extract_certificate_unreadable[of env domain w cert w' x] show ?thesis by simp
    next
      case read: (Inr fields)
      obtain country org cn nb na where "fields = (country, org, cn, nb, na)"
        by (cases fields) auto
      with g Inr read extract_certificate_read[of env domain w cert w' country org cn nb na]
      show ?thesis by simp
    qed
  qed
qed

theorem certificate_failure_is_atomic_witness:
  "fst (getpeercert demo_env ''refused.test'' 0) = Inl OSError
   \<and> fst (extract_certificate demo_env ''refused.test'' 0) = (Error, Error, Error, Error, Error)
   \<and> fst (getpeercert demo_env ''two-rdn.test'' 0) = Inr short_certificate
   \<and> read_certificate short_certificate = Inl IndexError
   \<and> fst (extract_certificate demo_env ''two-rdn.test'' 0) = (Error, Error, Error, Error, Error)
   \<and> fst (extract_certificate demo_env ''example.com'' 0)
       = (PStr ''US'', PStr ''DigiCert Inc'', PStr ''DigiCert Global G3 TLS ECC SHA384 2020 CA1'',
          PStr ''Jan 15 00:00:00 2025 GMT'', PStr ''Jan 15 23:59:59 2026 GMT'')"
proof -
  have a: "fst (getpeercert demo_env ''refused.test'' 0) = Inl OSError" by code_simp
  have b: "fst (getpeercert demo_env ''two-rdn.test'' 0) = Inr short_certificate" by code_simp
  have c: "read_certificate short_certificate = Inl IndexError" by code_simp
  have d: "fst (extract_certificate demo_env ''example.com'' 0)
       = (PStr ''US'', PStr ''DigiCert Inc'', PStr ''DigiCert Global G3 TLS ECC SHA384 2020 CA1'',
          PStr ''Jan 15 00:00:00 2025 GMT'', PStr ''Jan 15 23:59:59 2026 GMT'')" by code_simp
  from certificate_failure_is_atomic[of demo_env "''refused.test''" 0, THEN conjunct1] a
  have e: "fst (extract_certificate demo_env ''refused.test'' 0) = (Error, Error, Error, Error, Error)"
    by blast
  from certificate_failure_is_atomic[of demo_env "''two-rdn.test''" 0, THEN conjunct1] b c
  have f: "fst (extract_certificate demo_env ''two-rdn.test'' 0) = (Error, Error, Error, Error, Error)"
    by blast
  from a b c d e f show ?thesis by simp
qed

section \<open>Dataset assembler\<close>

lemma get_row_fetch_failed:
  "http_get env http_url w = (Inl e, w') \<Longrightarrow> get_row env url http_url w = (Inl e, w')"
  by (simp add: get_row_def)

lemma create_dataset_loop_append:
  "create_dataset_loop env (pre @ post) df http_url w =
     (case create_dataset_loop env pre df http_url w of
        (Inl e, w') \<Rightarrow> (Inl e, w')
      | (Inr (df', http_url'), w') \<Rightarrow> create_dataset_loop env post df' http_url' w')"
  by (induction pre arbitrary: df http_url w) (auto split: prod.splits sum.splits)

text \<open>
  Claim C1.  Take any list of URLs and any URL in it, with the table \<open>df\<close> and the
  world \<open>w\<close> that the loop has reached before that URL.  If the page fetch made for
  that URL raises a timeout or another request-level error, then the pass for that URL
  ends normally with the same table \<open>df\<close>, no row added, and the result of the whole
  call is the result of running the loop on the remaining URLs, in their order, from
  that same table.
\<close>

theorem failed_fetch_is_skipped:
  assumes "create_dataset_loop env pre [] None w0 = (Inr (df, http_url), w)"
    and "url_parser env url = Inr parsed"
    and "normalize parsed url http_url = Some target"
    and "http_get env target w = (Inl e, w')"
    and "is_request_exception e"
  shows "create_dataset_step env url df http_url w = (Inr (df, Some target), w')
    \<and> create_dataset env (pre @ url # post) w0
        = return_df (create_dataset_loop env post df (Some target) w')"
proof -
  from assms(2-5) get_row_fetch_failed[of env target w e w' url]
  have step: "create_dataset_step env url df http_url w = (Inr (df, Some target), w')"
    by (simp add: create_dataset_step_def)
  with assms(1) show ?thesis
    by (simp add: create_dataset_def create_dataset_loop_append)
qed

lemma create_dataset_step_keeps_rows:
  "create_dataset_step env url df http_url w = (Inr (df', h'), w') \<Longrightarrow>
     df' = df \<or> (\<exists>row. df' = df @ [row])"
  by (auto simp: create_dataset_step_def split: sum.splits option.splits prod.splits if_splits)

theorem failed_fetch_is_skipped_witness:
  "create_dataset_loop demo_env [''slow.test''] [] None 0 = (Inr ([], Some ''http://slow.test''), 1)
   \<and> url_parser demo_env ''refused.test'' = Inr \<lparr>scheme = [], netloc = [], hostname = None\<rparr>
   \<and> normalize \<lparr>scheme = [], netloc = [], hostname = None\<rparr> ''refused.test'' (Some ''http://slow.test'')
       = Some ''http://refused.test''
   \<and> http_get demo_env ''http://refused.test'' 1 = (Inl (RequestException ''connection refused''), 2)
   \<and> is_request_exception (RequestException ''connection refused'')
   \<and> create_dataset demo_env ([''slow.test''] @ ''refused.test'' # [''example.com'']) 0
       = return_df (create_dataset_loop demo_env [''example.com''] [] (Some ''http://refused.test'') 2)
   \<and> map (\<lambda>r. map_of r ''URL'')
         (projr (fst (create_dataset demo_env [''slow.test'', ''refused.test'', ''example.com''] 0)))
       = [Some (PStr ''example.com'')]"
proof -
  have z: "create_dataset_loop demo_env [''slow.test''] [] None 0 = (Inr ([], Some ''http://slow.test''), 1)"
    by code_simp
  have a: "url_parser demo_env ''refused.test'' = Inr \<lparr>scheme = [], netloc = [], hostname = None\<rparr>"
    by code_simp
  have b: "normalize \<lparr>scheme = [], netloc = [], hostname = None\<rparr> ''refused.test'' (Some ''http://slow.test'')
       = Some ''http://refused.test''"
    by code_simp
  have c: "http_get demo_env ''http://refused.test'' 1 = (Inl (RequestException ''connection refused''), 2)"
    by code_simp
  have d: "is_request_exception (RequestException ''connection refused'')"
    by simp
  have e: "map (\<lambda>r. map_of r ''URL'')
         (projr (fst (create_dataset demo_env [''slow.test'', ''refused.test'', ''example.com''] 0)))
       = [Some (PStr ''example.com'')]"
    by code_simp
  from failed_fetch_is_skipped[OF z a b c d, of "[''example.com'']"] z a b c d e
  show ?thesis by simp
qed

text \<open>
  Claim C3 says that a URL which already carries a scheme is fetched at the URL itself.
  The code assigns the fetch target only when the URL has no scheme (line 288 has no
  \<^verbatim>\<open>else\<close>).  A first URL with a scheme finds the variable unbound and the call ends
  with \<^verbatim>\<open>UnboundLocalError\<close>; a later one is fetched at the target of the
  last URL without a scheme: here the row of \<^verbatim>\<open>https://other.test\<close> is built from
  the page and the domain of \<^verbatim>\<open>example.com\<close>.
\<close>

theorem create_dataset_stale_fetch_target:
  "create_dataset demo_env [''https://example.com''] 0 = (Inl UnboundLocalError, 0)
   \<and> py_urlparse ''https://other.test''
       = Inr \<lparr>scheme = ''https'', netloc = ''other.test'', hostname = Some ''other.test''\<rparr>
   \<and> normalize \<lparr>scheme = ''https'', netloc = ''other.test'', hostname = Some ''other.test''\<rparr>
        ''https://other.test'' (Some ''http://example.com'') = Some ''http://example.com''
   \<and> map (\<lambda>r. (map_of r ''URL'', map_of r ''Domain''))
         (projr (fst (create_dataset demo_env [''example.com'', ''https://other.test''] 0)))
       = [(Some (PStr ''example.com''), Some (PStr ''example.com'')),
          (Some (PStr ''https://other.test''), Some (PStr ''example.com''))]"
  by code_simp

section \<open>Row builder\<close>

lemma extract_ip_address_raised:
  "fst (gethostbyname env domain w) = Inl x \<Longrightarrow> fst (extract_ip_address env domain w) = Error"
  by (cases "gethostbyname env domain w")
     (simp add: extract_ip_address_def and_then_Inl try_except_Inl)

lemma extract_whois_raised:
  "fst (whois_query env domain w) = Inl x \<Longrightarrow>
     fst (extract_whois env domain w) = (Error, Error, Error)"
  by (cases "whois_query env domain w")
     (simp add: extract_whois_def and_then_Inl try_except_Inl)

lemma extract_whois_missing_key:
  "fst (whois_query env domain w) = Inr info \<Longrightarrow>
   map_of info ''country'' = None \<or> map_of info ''creation_date'' = None
     \<or> map_of info ''expiration_date'' = None \<Longrightarrow>
     fst (extract_whois env domain w) = (Error, Error, Error)"
  by (cases "whois_query env domain w")
     (auto simp: extract_whois_def and_then_def lookup_def try_except_def split: option.splits)

lemma extract_link_features_raised:
  assumes "\<exists>link \<in> set (hrefs soup). \<exists>x. urlparse link = Inl x"
  shows "extract_link_features urlparse soup domain = (Error, Error, Error, Error, Error, Error)"
proof -
  from link_loop_raises[OF assms, of domain "(0, 0, 0, 0, 0, 0)"]
  obtain x where "link_loop urlparse domain (hrefs soup) (0, 0, 0, 0, 0, 0) = Inl x" by blast
  then show ?thesis
    by (simp add: extract_link_features_def extract_link_features_body_def try_except_def)
qed

lemma extract_iframes_raised:
  assumes "\<exists>iframe \<in> set (find_all soup ''iframe''). \<exists>x. urlparse (iframe_src iframe) = Inl x"
  shows "extract_iframes urlparse soup = (Error, Error)"
proof -
  from iframe_loop_raises[OF assms, of "(0, 0)"]
  obtain x where "iframe_loop urlparse (find_all soup ''iframe'') (0, 0) = Inl x" by blast
  then show ?thesis
    by (simp add: extract_iframes_def extract_iframes_body_def try_except_def)
qed

lemma get_row_raises_iff:
  "fst (get_row env url http_url w) = Inl e \<longleftrightarrow>
     fst (http_get env http_url w) = Inl e
     \<or> (\<exists>content. fst (http_get env http_url w) = Inr content
           \<and> (html_parser env content = Inl e
               \<or> (\<exists>soup. html_parser env content = Inr soup) \<and> url_parser env http_url = Inl e))"
  unfolding get_row_def
  by (auto simp: Let_def split: prod.splits sum.splits)

text \<open>
  Claim C4, as stated, fails in its last part: the page fetch succeeds and the row
  builder still raises.  Line 237 builds the document and line 238 parses the fetch
  target, both outside every \<^verbatim>\<open>try\<close>: the HTML parser rejects the content of the
  first page, and the URL parser rejects the network location of the second fetch
  target, which has an unmatched bracket.
\<close>

theorem get_row_other_errors_counterexample:
  "fst (http_get demo_env ''http://odd-markup.test'' 0) = Inr ''<![foo bar]>''
   \<and> fst (get_row demo_env ''odd-markup.test'' ''http://odd-markup.test'' 0)
       = Inl ParserRejectedMarkup
   \<and> fst (http_get demo_env ''http://[user@example.com'' 0) = Inr ''<html>''
   \<and> fst (get_row demo_env ''[user@example.com'' ''http://[user@example.com'' 0) = Inl ValueError"
  by code_simp

text \<open>
  Claim C4, amended.  Each extractor turns an error inside it into failure markers for
  its own fields: the resolver for the IP address, the certificate probe for its five
  fields, the WHOIS lookup for its three fields, the link classification for its six
  counts, the iframe analysis for its two counts; the link density and the HTTPS flag
  have no statement that raises.  The row builder catches nothing itself: it raises
  exactly when one of its three statements outside the extractors raises, that is
  when the page fetch raises, or the fetch succeeds and building the document from
  the fetched content raises, or both succeed and parsing the fetch target raises; in
  every other case it returns a row, whatever the probes did.
\<close>

theorem extractors_catch_and_get_row_propagates:
  "((\<exists>x. fst (gethostbyname env domain w) = Inl x) \<longrightarrow>
       fst (extract_ip_address env domain w) = Error)
   \<and> ((\<exists>x. fst (getpeercert env domain w) = Inl x)
        \<or> (\<exists>cert x. fst (getpeercert env domain w) = Inr cert \<and> read_certificate cert = Inl x) \<longrightarrow>
       fst (extract_certificate env domain w) = (Error, Error, Error, Error, Error))
   \<and> ((\<exists>x. fst (whois_query env domain w) = Inl x)
        \<or> (\<exists>info. fst (whois_query env domain w) = Inr info
              \<and> (map_of info ''country'' = None \<or> map_of info ''creation_date'' = None
                  \<or> map_of info ''expiration_date'' = None)) \<longrightarrow>
       fst (extract_whois env domain w) = (Error, Error, Error))
   \<and> ((\<exists>link \<in> set (hrefs soup). \<exists>x. urlparse link = Inl x) \<longrightarrow>
       extract_link_features urlparse soup domain = (Error, Error, Error, Error, Error, Error))
   \<and> ((\<exists>iframe \<in> set (find_all soup ''iframe''). \<exists>x. urlparse (iframe_src iframe) = Inl x) \<longrightarrow>
       extract_iframes urlparse soup = (Error, Error))
   \<and> (\<exists>v. extract_link_density_body soup = Inr v)
   \<and> (\<exists>v. extract_if_https_body url = Inr v)
   \<and> (fst (get_row env url http_url w) = Inl e \<longleftrightarrow>
        fst (http_get env http_url w) = Inl e
        \<or> (\<exists>content. fst (http_get env http_url w) = Inr content
              \<and> (html_parser env content = Inl e
                  \<or> (\<exists>soup. html_parser env content = Inr soup)
                     \<and> url_parser env http_url = Inl e)))"
proof -
  have ip: "(\<exists>x. fst (gethostbyname env domain w) = Inl x) \<longrightarrow>
       fst (extract_ip_address env domain w) = Error"
    using extract_ip_address_raised[of env domain w] by blast
  have cert: "(\<exists>x. fst (getpeercert env domain w) = Inl x)
        \<or> (\<exists>cert x. fst (getpeercert env domain w) = Inr cert \<and> read_certificate cert = Inl x) \<longrightarrow>
       fst (extract_certificate env domain w) = (Error, Error, Error, Error, Error)"
  proof (cases "getpeercert env domain w")
    case (Pair r w')
    then show ?thesis
      using extract_certificate_raised[of env domain w _ w']
            extract_certificate_unreadable[of env domain w _ w']
      by (cases r) auto
  qed
  have whois: "(\<exists>x. fst (whois_query env domain w) = Inl x)
        \<or> (\<exists>info. fst (whois_query env domain w) = Inr info
              \<and> (map_of info ''country'' = None \<or> map_of info ''creation_date'' = None
                  \<or> map_of info ''expiration_date'' = None)) \<longrightarrow>
       fst (extract_whois env domain w) = (Error, Error, Error)"
    using extract_whois_raised[of env domain w] extract_whois_missing_key[of env domain w]
    by blast
  have links: "(\<exists>link \<in> set (hrefs soup). \<exists>x. urlparse link = Inl x) \<longrightarrow>
       extract_link_features urlparse soup domain = (Error, Error, Error, Error, Error, Error)"
    using extract_link_features_raised[of soup urlparse domain] by blast
  have iframes: "(\<exists>iframe \<in> set (find_all soup ''iframe''). \<exists>x. urlparse (iframe_src iframe) = Inl x) \<longrightarrow>
       extract_iframes urlparse soup = (Error, Error)"
    using extract_iframes_raised[of soup urlparse] by blast
  have density: "\<exists>v. extract_link_density_body soup = Inr v"
    by (simp add: extract_link_density_body_def and_then_def truediv_def Let_def)
  have https: "\<exists>v. extract_if_https_body url = Inr v"
    by (simp add: extract_if_https_body_def Let_def)
  from ip cert whois links iframes density https get_row_raises_iff[of env url http_url w e]
  show ?thesis by blast
qed

theorem extractors_catch_and_get_row_propagates_witness:
  "fst (gethostbyname demo_env ''page-only.test'' 1) = Inl OSError
   \<and> fst (getpeercert demo_env ''page-only.test'' 2) = Inl OSError
   \<and> fst (whois_query demo_env ''two-rdn.test'' 3) = Inr [(''country'', PStr ''US'')]
   \<and> fst (extract_whois demo_env ''two-rdn.test'' 3) = (Error, Error, Error)
   \<and> extract_link_features py_urlparse [Tag ''a'' [(''href'', ''http://[bad'')] []] ''example.com''
       = (Error, Error, Error, Error, Error, Error)
   \<and> extract_iframes py_urlparse [Tag ''iframe'' [(''src'', ''//[ads'')] []] = (Error, Error)
   \<and> fst (http_get demo_env ''http://slow.test'' 0) = Inl Timeout
   \<and> fst (get_row demo_env ''slow.test'' ''http://slow.test'' 0) = Inl Timeout
   \<and> html_parser demo_env ''<![foo bar]>'' = Inl ParserRejectedMarkup
   \<and> fst (get_row demo_env ''odd-markup.test'' ''http://odd-markup.test'' 0)
       = Inl ParserRejectedMarkup
   \<and> fst (get_row demo_env ''page-only.test'' ''http://page-only.test'' 0)
       = Inr [(''URL'', PStr ''page-only.test''),
              (''Domain'', PStr ''page-only.test''),
              (''IP Address'', Error),
              (''Link Density'', PFloat 1),
              (''External Links Count'', PInt 2),
              (''Internal Links Count'', PInt 0),
              (''External IP Count'', PInt 0),
              (''HTTP Count'', PInt 1),
              (''HTTPS Count'', PInt 1),
              (''Non Count'', PInt 1),
              (''External Iframes Count'', PInt 1),
              (''Hidden Iframes Count'', PInt 1),
              (''Country'', Error),
              (''Organization'', Error),
              (''Certificate'', Error),
              (''Certificate Not Before'', Error),
              (''Certificate Not After'', Error),
              (''If HTTPS'', PInt 0),
              (''Whois_country'', Error),
              (''whois_creation_date'', Error),
              (''whois_expiration_date'', Error)]"
proof -
  note ecp = extractors_catch_and_get_row_propagates
  have a: "fst (gethostbyname demo_env ''page-only.test'' 1) = Inl OSError" by code_simp
  have b: "fst (getpeercert demo_env ''page-only.test'' 2) = Inl OSError" by code_simp
  have c: "fst (whois_query demo_env ''two-rdn.test'' 3) = Inr [(''country'', PStr ''US'')]"
    by code_simp
  have c': "map_of [(''country'', PStr ''US'')] ''creation_date'' = None" by simp
  have d: "\<exists>link \<in> set (hrefs [Tag ''a'' [(''href'', ''http://[bad'')] []]). \<exists>x. py_urlparse link = Inl x"
  proof -
    have "hrefs [Tag ''a'' [(''href'', ''http://[bad'')] []] = [''http://[bad'']" by code_simp
    moreover have "py_urlparse ''http://[bad'' = Inl ValueError" by code_simp
    ultimately show ?thesis by simp
  qed
  have e: "\<exists>iframe \<in> set (find_all [Tag ''iframe'' [(''src'', ''//[ads'')] []] ''iframe'').
             \<exists>x. py_urlparse (iframe_src iframe) = Inl x"
  proof -
    have "find_all [Tag ''iframe'' [(''src'', ''//[ads'')] []] ''iframe''
            = [Tag ''iframe'' [(''src'', ''//[ads'')] []]" by code_simp
    moreover have "py_urlparse (iframe_src (Tag ''iframe'' [(''src'', ''//[ads'')] [])) = Inl ValueError"
      by code_simp
    ultimately show ?thesis by simp
  qed
  have f: "fst (http_get demo_env ''http://slow.test'' 0) = Inl Timeout" by code_simp
  have g: "fst (get_row demo_env ''page-only.test'' ''http://page-only.test'' 0)
       = Inr [(''URL'', PStr ''page-only.test''),
              (''Domain'', PStr ''page-only.test''),
              (''IP Address'', Error),
              (''Link Density'', PFloat 1),
              (''External Links Count'', PInt 2),
              (''Internal Links Count'', PInt 0),
              (''External IP Count'', PInt 0),
              (''HTTP Count'', PInt 1),
              (''HTTPS Count'', PInt 1),
              (''Non Count'', PInt 1),
              (''External Iframes Count'', PInt 1),
              (''Hidden Iframes Count'', PInt 1),
              (''Country'', Error),
              (''Organization'', Error),
              (''Certificate'', Error),
              (''Certificate Not Before'', Error),
              (''Certificate Not After'', Error),
              (''If HTTPS'', PInt 0),
              (''Whois_country'', Error),
              (''whois_creation_date'', Error),
              (''whois_expiration_date'', Error)]"
    by code_simp
  note whois_part = ecp[where env = demo_env and domain = "''two-rdn.test''" and w = 3
      and urlparse = py_urlparse and soup = "[]" and url = "[]" and http_url = "[]" and e = Timeout,
      THEN conjunct2, THEN conjunct2, THEN conjunct1]
  from whois_part c c'
  have w3: "fst (extract_whois demo_env ''two-rdn.test'' 3) = (Error, Error, Error)"
    by blast
  note links_part = ecp[where env = demo_env and domain = "''example.com''" and w = 0
      and urlparse = py_urlparse and soup = "[Tag ''a'' [(''href'', ''http://[bad'')] []]"
      and url = "[]" and http_url = "[]" and e = Timeout,
      THEN conjunct2, THEN conjunct2, THEN conjunct2, THEN conjunct1]
  from links_part d
  have w4: "extract_link_features py_urlparse [Tag ''a'' [(''href'', ''http://[bad'')] []] ''example.com''
       = (Error, Error, Error, Error, Error, Error)"
    by blast
  note iframes_part = ecp[where env = demo_env and domain = "''example.com''" and w = 0
      and urlparse = py_urlparse and soup = "[Tag ''iframe'' [(''src'', ''//[ads'')] []]"
      and url = "[]" and http_url = "[]" and e = Timeout,
      THEN conjunct2, THEN conjunct2, THEN conjunct2, THEN conjunct2, THEN conjunct1]
  from iframes_part e
  have w5: "extract_iframes py_urlparse [Tag ''iframe'' [(''src'', ''//[ads'')] []] = (Error, Error)"
    by blast
  note row_part = ecp[where env = demo_env and domain = "''example.com''" and w = 0
      and urlparse = py_urlparse and soup = "[]"
      and url = "''slow.test''" and http_url = "''http://slow.test''" and e = Timeout,
      THEN conjunct2, THEN conjunct2, THEN conjunct2, THEN conjunct2, THEN conjunct2,
      THEN conjunct2, THEN conjunct2]
  from row_part f
  have w8: "fst (get_row demo_env ''slow.test'' ''http://slow.test'' 0) = Inl Timeout"
    by blast
  have h: "fst (http_get demo_env ''http://odd-markup.test'' 0) = Inr ''<![foo bar]>''"
    by code_simp
  have i: "html_parser demo_env ''<![foo bar]>'' = Inl ParserRejectedMarkup"
    by code_simp
  note markup_part = ecp[where env = demo_env and domain = "''example.com''" and w = 0
      and urlparse = py_urlparse and soup = "[]"
      and url = "''odd-markup.test''" and http_url = "''http://odd-markup.test''"
      and e = ParserRejectedMarkup,
      THEN conjunct2, THEN conjunct2, THEN conjunct2, THEN conjunct2, THEN conjunct2,
      THEN conjunct2, THEN conjunct2]
  from markup_part h i
  have w9: "fst (get_row demo_env ''odd-markup.test'' ''http://odd-markup.test'' 0)
       = Inl ParserRejectedMarkup"
    by blast
  from a b c w3 w4 w5 f w8 g i w9 show ?thesis by simp
qed

section \<open>Dataset curation\<close>

text \<open>
  Claim C6 says that both class tables are cut to the class size before they are
  concatenated.  The code cuts the phishing table twice (lines 329 and 330) and the
  benign table never: of 401 phishing rows 400 are kept, of 401 benign rows all 401.
\<close>

theorem truncate_and_concat_benign_untruncated:
  "truncate_and_concat phishing_data benign_data = take 400 phishing_data @ benign_data
   \<and> length (filter (\<lambda>r. map_of r ''type'' = Some (PStr ''phishing''))
        (truncate_and_concat
           (replicate 401 [(''URL'', PStr ''p.test''), (''type'', PStr ''phishing'')])
           (replicate 401 [(''URL'', PStr ''b.test''), (''type'', PStr ''benign'')]))) = 400
   \<and> length (filter (\<lambda>r. map_of r ''type'' = Some (PStr ''benign''))
        (truncate_and_concat
           (replicate 401 [(''URL'', PStr ''p.test''), (''type'', PStr ''phishing'')])
           (replicate 401 [(''URL'', PStr ''b.test''), (''type'', PStr ''benign'')]))) = 401"
  by (simp add: truncate_and_concat_def head_def Let_def)

end
